theory Spec2Isabelle
  imports Main "HOL-Library.Word"
begin

section \<open>JavaScript strings and values\<close>

text \<open>
  A JavaScript string is a sequence of UTF-16 code units and \<open>s.length\<close> counts them.
  \<open>str\<close> writes an ASCII literal of the source as such a sequence.
\<close>

type_synonym code_unit = "16 word"
type_synonym jsstring = "code_unit list"

definition str :: "string \<Rightarrow> jsstring" where
  "str s = map of_char s"

text \<open>The line break inside the template literal of \<open>exportToHtml\<close>.\<close>

definition nl :: jsstring where
  "nl = [10]"

text \<open>
  \<open>toLowerCase\<close> on the ASCII range. The platform method also maps letters outside
  ASCII; the only one it maps onto an ASCII letter is the Kelvin sign (onto \<open>k\<close>), a
  letter that no key looked up below contains, so the lookups below are not affected.
\<close>

definition lower_unit :: "code_unit \<Rightarrow> code_unit" where
  "lower_unit u = (if 65 \<le> u \<and> u \<le> 90 then u + 32 else u)"

definition toLowerCase :: "jsstring \<Rightarrow> jsstring" where
  "toLowerCase s = map lower_unit s"

text \<open>The decimal text of an integer number, as a template literal prints it.\<close>

fun digits :: "nat \<Rightarrow> jsstring" where
  "digits n = (if n < 10 then [of_nat (48 + n)]
               else digits (n div 10) @ [of_nat (48 + n mod 10)])"

declare digits.simps [simp del]

definition show_int :: "int \<Rightarrow> jsstring" where
  "show_int i = (if i < 0 then str ''-'' @ digits (nat (- i)) else digits (nat i))"

text \<open>
  A thrown \<open>Error\<close> object: its name and its message. \<open>error_text\<close> is what string
  concatenation makes of it (\<open>Error.prototype.toString\<close>).
\<close>

datatype js_error = JsError (err_name: jsstring) (err_message: jsstring)

definition error_text :: "js_error \<Rightarrow> jsstring" where
  "error_text e =
     (if err_name e = [] then err_message e
      else if err_message e = [] then err_name e
      else err_name e @ str '': '' @ err_message e)"

subsection \<open>\<open>String.prototype.indexOf\<close> and \<open>String.prototype.replace\<close> on string arguments\<close>

fun indexOf :: "jsstring \<Rightarrow> jsstring \<Rightarrow> nat option" where
  "indexOf [] pat = (if pat = [] then Some 0 else None)"
| "indexOf (c # cs) pat =
     (if take (length pat) (c # cs) = pat then Some 0
      else map_option Suc (indexOf cs pat))"

text \<open>
  The replacement text of \<open>replace\<close> is a template: \<open>$$\<close> stands for a dollar sign,
  \<open>$&\<close> for the matched text, \<open>$`\<close> and \<open>$'\<close> for the text before and after the
  match. With a string pattern there are no capture groups, so every other \<open>$\<close> is
  copied as it is.
\<close>

fun GetSubstitution :: "jsstring \<Rightarrow> jsstring \<Rightarrow> jsstring \<Rightarrow> jsstring \<Rightarrow> jsstring" where
  "GetSubstitution matched before after [] = []"
| "GetSubstitution matched before after [c] = [c]"
| "GetSubstitution matched before after (c # d # t) =
     (if c = 36 then
        (if d = 36 then 36 # GetSubstitution matched before after t
         else if d = 38 then matched @ GetSubstitution matched before after t
         else if d = 96 then before @ GetSubstitution matched before after t
         else if d = 39 then after @ GetSubstitution matched before after t
         else c # GetSubstitution matched before after (d # t))
      else c # GetSubstitution matched before after (d # t))"

text \<open>\<open>s.replace(pat, rep)\<close> with two strings: only the first occurrence is replaced.\<close>

definition replace :: "jsstring \<Rightarrow> jsstring \<Rightarrow> jsstring \<Rightarrow> jsstring" where
  "replace s pat rep =
     (case indexOf s pat of
        None \<Rightarrow> s
      | Some p \<Rightarrow>
          (let before = take p s; after = drop (p + length pat) s
           in before @ GetSubstitution pat before after rep @ after))"

subsection \<open>Property lookup on an object literal\<close>

text \<open>
  The value of \<open>obj[key]\<close> for an object literal whose own properties are strings: the
  own property if there is one, otherwise the member of \<open>Object.prototype\<close> of that
  name, otherwise \<open>undefined\<close> (\<open>None\<close>).
\<close>

datatype jsvalue = JsString jsstring | Inherited jsstring

definition Object_prototype :: "jsstring list" where
  "Object_prototype =
     [str ''constructor'', str ''hasOwnProperty'', str ''isPrototypeOf'',
      str ''propertyIsEnumerable'', str ''toLocaleString'', str ''toString'',
      str ''valueOf'', str ''__proto__'', str ''__defineGetter__'',
      str ''__defineSetter__'', str ''__lookupGetter__'', str ''__lookupSetter__'']"

definition get_property :: "(jsstring \<times> jsstring) list \<Rightarrow> jsstring \<Rightarrow> jsvalue option" where
  "get_property obj key =
     (case map_of obj key of
        Some v \<Rightarrow> Some (JsString v)
      | None \<Rightarrow> if key \<in> set Object_prototype then Some (Inherited key) else None)"

text \<open>Truthiness: \<open>undefined\<close> and the empty string are falsy, objects are truthy.\<close>

fun truthy :: "jsvalue option \<Rightarrow> bool" where
  "truthy None = False"
| "truthy (Some (JsString s)) = (s \<noteq> [])"
| "truthy (Some (Inherited k)) = True"

text \<open>The text a template literal prints for a value.\<close>

fun to_text :: "jsvalue \<Rightarrow> jsstring" where
  "to_text (JsString s) = s"
| "to_text (Inherited k) =
     (if k = str ''__proto__'' then str ''[object Object]''
      else str ''function '' @ (if k = str ''constructor'' then str ''Object'' else k)
           @ str ''() { [native code] }'')"

section \<open>JavaScript numbers\<close>

text \<open>
  A number is an IEEE 754 double: not a number, an infinity, or \<open>m * 2 ^ e\<close>, kept as
  \<open>Num m e\<close> with \<open>m\<close> odd (\<open>Num 0 0\<close> is zero). The two zeros are one value here:
  both print as \<open>0\<close>, and the plugin divides by the constant 10000 only.
\<close>

datatype double = NaN | PosInfinity | NegInfinity | Num int int

text \<open>Floor logarithms of a positive natural number.\<close>

fun log2_floor :: "nat \<Rightarrow> nat" where
  "log2_floor n = (if n < 2 then 0 else Suc (log2_floor (n div 2)))"
declare log2_floor.simps [simp del]

fun log10_floor :: "nat \<Rightarrow> nat" where
  "log10_floor n = (if n < 10 then 0 else Suc (log10_floor (n div 10)))"
declare log10_floor.simps [simp del]

text \<open>The fraction \<open>p * b ^ k / q\<close>, for an integer \<open>k\<close>.\<close>
definition scale :: "nat \<Rightarrow> nat \<Rightarrow> nat \<Rightarrow> int \<Rightarrow> nat \<times> nat" where
  "scale b p q k = (if 0 \<le> k then (p * b ^ nat k, q) else (p, q * b ^ nat (- k)))"

text \<open>
  The floor of the logarithm of \<open>p / q\<close> to base \<open>b\<close>, from the floor logarithms
  \<open>fp\<close> of \<open>p\<close> and \<open>fq\<close> of \<open>q\<close>: it is their difference or one less.
\<close>
definition floor_log_ratio :: "nat \<Rightarrow> nat \<Rightarrow> nat \<Rightarrow> nat \<Rightarrow> nat \<Rightarrow> int" where
  "floor_log_ratio b fp fq p q =
     (let k = int fp - int fq;
          (n, d) = scale b p q (- k)
      in if d \<le> n then k else k - 1)"

definition binade :: "nat \<Rightarrow> nat \<Rightarrow> int" where
  "binade p q = floor_log_ratio 2 (log2_floor p) (log2_floor q) p q"

definition decade :: "nat \<Rightarrow> nat \<Rightarrow> int" where
  "decade p q = floor_log_ratio 10 (log10_floor p) (log10_floor q) p q"

definition round_half_even :: "nat \<Rightarrow> nat \<Rightarrow> nat" where
  "round_half_even n d =
     (let f = n div d; r = n mod d
      in if 2 * r < d then f else if d < 2 * r then f + 1 else if even f then f else f + 1)"

fun strip2 :: "nat \<Rightarrow> int \<Rightarrow> nat \<times> int" where
  "strip2 m e = (if m = 0 then (0, 0) else if even m then strip2 (m div 2) (e + 1) else (m, e))"
declare strip2.simps [simp del]

text \<open>
  Rounding to nearest, ties to even: the double nearest to \<open>p / q\<close>, with 53 bits
  above \<open>2 ^ - 1022\<close>, multiples of \<open>2 ^ - 1074\<close> below, and infinity from
  \<open>2 ^ 1024 - 2 ^ 970\<close> on.
\<close>
definition to_double :: "int \<Rightarrow> nat \<Rightarrow> double" where
  "to_double p q =
     (if p = 0 then Num 0 0
      else
        let a = nat \<bar>p\<bar>;
            e = max (binade a q - 52) (- 1074);
            (n, d) = scale 2 a q (- e);
            m = round_half_even n d
        in if 971 < e \<or> (e = 971 \<and> m = 2 ^ 53) then (if p < 0 then NegInfinity else PosInfinity)
           else (case strip2 m e of (m', e') \<Rightarrow> Num (if p < 0 then - int m' else int m') e'))"


text \<open>
  The quotient \<open>(m1 * 2 ^ e1) / (m2 * 2 ^ e2)\<close> as a fraction with a positive
  denominator; \<open>*\<close>, \<open>/\<close> and \<open>Math.round\<close> on doubles. \<open>Math.round\<close> is the floor of
  \<open>x + 1/2\<close>, which a double holds exactly.
\<close>

definition ratio :: "int \<Rightarrow> int \<Rightarrow> int \<Rightarrow> int \<Rightarrow> int \<times> nat" where
  "ratio m1 e1 m2 e2 =
     (let sgn2 = (if m2 < 0 then - 1 else 1);
          p = sgn2 * m1 * 2 ^ nat (e1 - e2);
          q = nat \<bar>m2\<bar> * 2 ^ nat (e2 - e1)
      in (p, q))"

fun dmul :: "double \<Rightarrow> double \<Rightarrow> double" where
  "dmul (Num m1 e1) (Num m2 e2) =
     (case ratio (m1 * m2) (e1 + e2) 1 0 of (p, q) \<Rightarrow> to_double p q)"
| "dmul NaN y = NaN"
| "dmul x NaN = NaN"
| "dmul (Num m e) y =
     (if m = 0 then NaN else if (m < 0) = (y = NegInfinity) then PosInfinity else NegInfinity)"
| "dmul x (Num m e) =
     (if m = 0 then NaN else if (m < 0) = (x = NegInfinity) then PosInfinity else NegInfinity)"
| "dmul x y = (if x = y then PosInfinity else NegInfinity)"

fun ddiv :: "double \<Rightarrow> double \<Rightarrow> double" where
  "ddiv (Num m1 e1) (Num m2 e2) =
     (if m2 = 0 then (if m1 = 0 then NaN else if 0 < m1 then PosInfinity else NegInfinity)
      else (case ratio m1 e1 m2 e2 of (p, q) \<Rightarrow> to_double p q))"
| "ddiv NaN y = NaN"
| "ddiv x NaN = NaN"
| "ddiv (Num m e) y = Num 0 0"
| "ddiv x (Num m e) = (if (m < 0) = (x = NegInfinity) then PosInfinity else NegInfinity)"
| "ddiv x y = NaN"

fun Math_round :: "double \<Rightarrow> double" where
  "Math_round (Num m e) =
     (if 0 \<le> e then Num m e
      else to_double ((2 * m + 2 ^ nat (- e)) div 2 ^ nat (1 - e)) 1)"
| "Math_round x = x"

subsection \<open>Number to string\<close>

text \<open>
  The text of a number is made of the fewest decimal digits that read back as the same
  double. \<open>pick m e k\<close> looks at the two \<open>k\<close>-digit neighbours of \<open>m * 2 ^ e\<close> and takes
  the nearer one that reads back; seventeen digits always do. \<open>format_number\<close> places
  the decimal point or the exponent.
\<close>

definition reads_back :: "nat \<Rightarrow> int \<Rightarrow> nat \<Rightarrow> int \<Rightarrow> bool" where
  "reads_back m e c x =
     (case scale 10 c 1 x of (p, q) \<Rightarrow> to_double (int p) q = Num (int m) e)"

definition pick :: "nat \<Rightarrow> int \<Rightarrow> int \<Rightarrow> (nat \<times> int) option" where
  "pick m e k =
     (let (p, q) = (case ratio (int m) e 1 0 of (p, q) \<Rightarrow> (nat p, q));
          n = decade p q + 1;
          (tn, td) = scale 10 p q (k - n);
          lo = tn div td;
          r = tn mod td;
          hi = lo + 1;
          lo_ok = reads_back m e lo (n - k);
          hi_ok = reads_back m e hi (n - k);
          prefer_hi = (td < 2 * r \<or> (2 * r = td \<and> odd lo))
      in if lo_ok \<and> (\<not> hi_ok \<or> \<not> prefer_hi) then Some (lo, n)
         else if hi_ok then (if hi = 10 ^ nat k then Some (10 ^ nat (k - 1), n + 1) else Some (hi, n))
         else None)"

function shortest :: "nat \<Rightarrow> int \<Rightarrow> int \<Rightarrow> nat \<times> int" where
  "shortest m e k =
     (case pick m e k of
        Some r \<Rightarrow> r
      | None \<Rightarrow> if k < 17 then shortest m e (k + 1) else (0, 0))"
  by pat_completeness auto
termination
  by (relation "measure (\<lambda>(m, e, k). nat (17 - k))") auto

declare shortest.simps [simp del]

definition zeros :: "nat \<Rightarrow> jsstring" where
  "zeros n = replicate n 48"

definition format_number :: "jsstring \<Rightarrow> int \<Rightarrow> jsstring" where
  "format_number ds n =
     (let k = int (length ds)
      in if k \<le> n \<and> n \<le> 21 then ds @ zeros (nat (n - k))
         else if 0 < n \<and> n \<le> 21 then take (nat n) ds @ str ''.'' @ drop (nat n) ds
         else if - 6 < n \<and> n \<le> 0 then str ''0.'' @ zeros (nat (- n)) @ ds
         else (if k = 1 then ds else take 1 ds @ str ''.'' @ drop 1 ds)
              @ str ''e'' @ (if 0 \<le> n - 1 then str ''+'' else str ''-'') @ digits (nat \<bar>n - 1\<bar>))"

fun strip10 :: "nat \<Rightarrow> nat" where
  "strip10 s = (if s = 0 then 0 else if s mod 10 = 0 then strip10 (s div 10) else s)"
declare strip10.simps [simp del]

fun number_to_string :: "double \<Rightarrow> jsstring" where
  "number_to_string NaN = str ''NaN''"
| "number_to_string PosInfinity = str ''Infinity''"
| "number_to_string NegInfinity = str ''-Infinity''"
| "number_to_string (Num m e) =
     (if m = 0 then str ''0''
      else (if m < 0 then str ''-'' else [])
           @ (case shortest (nat \<bar>m\<bar>) e 1 of (s, n) \<Rightarrow> format_number (digits (strip10 s)) n))"

definition dec :: "int \<Rightarrow> nat \<Rightarrow> string" where
  "dec p q = map (\<lambda>u. char_of (unat u)) (number_to_string (to_double p q))"

subsection \<open>String to number\<close>

text \<open>
  \<open>Number(s)\<close> for a string: white space around the text is dropped; the empty text is
  0; then a hexadecimal, octal or binary integer, or a signed decimal with an optional
  fraction and exponent, or \<open>Infinity\<close>; anything else is not a number.
\<close>

definition is_space :: "code_unit \<Rightarrow> bool" where
  "is_space u \<longleftrightarrow>
     u \<in> {9, 10, 11, 12, 13, 32, 160, 0x1680, 0x2028, 0x2029, 0x202F, 0x205F, 0x3000, 0xFEFF}
     \<or> (0x2000 \<le> u \<and> u \<le> 0x200A)"

definition trim :: "jsstring \<Rightarrow> jsstring" where
  "trim s = rev (dropWhile is_space (rev (dropWhile is_space s)))"

definition digit_value :: "code_unit \<Rightarrow> nat option" where
  "digit_value u =
     (if 48 \<le> u \<and> u \<le> 57 then Some (unat u - 48)
      else if 97 \<le> u \<and> u \<le> 102 then Some (unat u - 87)
      else if 65 \<le> u \<and> u \<le> 70 then Some (unat u - 55)
      else None)"

definition is_digit :: "nat \<Rightarrow> code_unit \<Rightarrow> bool" where
  "is_digit b u = (case digit_value u of Some v \<Rightarrow> v < b | None \<Rightarrow> False)"

definition digits_value :: "nat \<Rightarrow> jsstring \<Rightarrow> nat" where
  "digits_value b ds = foldl (\<lambda>a u. b * a + the (digit_value u)) 0 ds"

definition negate :: "double \<Rightarrow> double" where
  "negate x = (case x of NaN \<Rightarrow> NaN | PosInfinity \<Rightarrow> NegInfinity | NegInfinity \<Rightarrow> PosInfinity
               | Num m e \<Rightarrow> Num (- m) e)"

definition exponent_part :: "jsstring \<Rightarrow> int option" where
  "exponent_part s =
     (case s of
        [] \<Rightarrow> Some 0
      | c # t \<Rightarrow>
          if c = 101 \<or> c = 69 then
            (let (neg, ds) = (case t of
                                [] \<Rightarrow> (False, [])
                              | d # t' \<Rightarrow> if d = 45 then (True, t') else if d = 43 then (False, t')
                                          else (False, t))
             in if ds \<noteq> [] \<and> list_all (is_digit 10) ds
                then Some (if neg then - int (digits_value 10 ds) else int (digits_value 10 ds))
                else None)
          else None)"

definition unsigned_decimal :: "jsstring \<Rightarrow> double option" where
  "unsigned_decimal s =
     (if s = str ''Infinity'' then Some PosInfinity
      else
        let ip = takeWhile (is_digit 10) s;
            r1 = dropWhile (is_digit 10) s;
            (fp, r2) = (case r1 of
                          [] \<Rightarrow> ([], [])
                        | c # t \<Rightarrow> if c = 46 then (takeWhile (is_digit 10) t, dropWhile (is_digit 10) t)
                                    else ([], r1))
        in if ip = [] \<and> fp = [] then None
           else (case exponent_part r2 of
                   None \<Rightarrow> None
                 | Some x \<Rightarrow>
                     (case scale 10 (digits_value 10 (ip @ fp)) 1 (x - int (length fp)) of
                        (p, q) \<Rightarrow> Some (to_double (int p) q))))"

definition signed_decimal :: "jsstring \<Rightarrow> double option" where
  "signed_decimal s =
     (case s of
        [] \<Rightarrow> None
      | c # t \<Rightarrow> if c = 45 then map_option negate (unsigned_decimal t)
                  else if c = 43 then unsigned_decimal t
                  else unsigned_decimal s)"

definition non_decimal :: "jsstring \<Rightarrow> double option" where
  "non_decimal s =
     (case s of
        z # x # ds \<Rightarrow>
          (let b = (if x = 120 \<or> x = 88 then 16 else if x = 111 \<or> x = 79 then 8
                    else if x = 98 \<or> x = 66 then 2 else 0)
           in if z = 48 \<and> b \<noteq> 0 \<and> ds \<noteq> [] \<and> list_all (is_digit b) ds
              then Some (to_double (int (digits_value b ds)) 1) else None)
      | _ \<Rightarrow> None)"

definition StringToNumber :: "jsstring \<Rightarrow> double" where
  "StringToNumber s =
     (let t = trim s
      in if t = [] then Num 0 0
         else (case non_decimal t of
                 Some x \<Rightarrow> x
               | None \<Rightarrow> (case signed_decimal t of Some x \<Rightarrow> x | None \<Rightarrow> NaN)))"

section \<open>The host: notes, attachments, renderer\<close>

record tfile =
  path :: jsstring
  name :: jsstring
  basename :: jsstring
  extension :: jsstring

record embed =
  link :: jsstring

record cached_metadata =
  embeds :: "embed list option"

text \<open>
  What the plugin reads from the editor and from the libraries it imports. These calls
  are taken to return; the calls that the plugin guards with \<open>try\<close> are in
  \<open>services\<close> below.
\<close>

record host =
  getActiveFile :: "tfile option"
  read :: "tfile \<Rightarrow> jsstring"
  readBinary :: "tfile \<Rightarrow> 8 word list"
  getFileCache :: "tfile \<Rightarrow> cached_metadata option"
  getLinkpath :: "jsstring \<Rightarrow> jsstring"
  getFirstLinkpathDest :: "jsstring \<Rightarrow> jsstring \<Rightarrow> tfile option"
  arrayBufferToBase64 :: "8 word list \<Rightarrow> jsstring"
  marked :: "jsstring \<Rightarrow> jsstring"

section \<open>Effects\<close>

record transaction =
  tx_data :: jsstring
  tx_tags :: "(jsstring \<times> jsstring) list"
  tx_id :: jsstring

record response =
  status :: int

datatype json =
    JNull
  | JBool bool
  | JNum jsstring
  | JStr jsstring
  | JArr "json list"
  | JObj "(jsstring \<times> json) list"

datatype request =
    GetPrice nat
  | FetchUrl jsstring
  | PostTx transaction
  | GetBalance jsstring

datatype element = Paragraph jsstring | Anchor jsstring jsstring | SendButton

record modal =
  priceInUSD :: jsstring
  data :: jsstring
  contentEl :: "element list"
  sendButton :: jsstring

text \<open>
  What the user and the network see: the notices shown, the requests sent, the modals
  opened, each in order.
\<close>

record world =
  notices :: "jsstring list"
  requests :: "request list"
  modals :: "modal list"

definition Notice :: "jsstring \<Rightarrow> world \<Rightarrow> world" where
  "Notice text w = w\<lparr>notices := notices w @ [text]\<rparr>"

definition send :: "request \<Rightarrow> world \<Rightarrow> world" where
  "send r w = w\<lparr>requests := requests w @ [r]\<rparr>"

text \<open>
  The calls that can throw: \<open>JSON.parse\<close>, the storage network's client and the price
  feed. \<open>Inl\<close> is the thrown error. A number in a JSON value is kept by its literal
  in the response text; its value is the double that \<open>StringToNumber\<close> reads from it.
\<close>

record services =
  JSON_parse :: "jsstring \<Rightarrow> js_error + json"
  createTransaction :: "jsstring \<Rightarrow> json \<Rightarrow> js_error + transaction"
  sign :: "transaction \<Rightarrow> json \<Rightarrow> js_error + transaction"
  post :: "transaction \<Rightarrow> js_error + response"
  getPrice :: "nat \<Rightarrow> js_error + jsstring"
  winstonToAr :: "jsstring \<Rightarrow> jsstring"
  getAddress :: "json \<Rightarrow> js_error + jsstring"
  getBalance :: "jsstring \<Rightarrow> js_error + jsstring"
  requestUrl :: "jsstring \<Rightarrow> js_error + json"

record settings =
  privateKey :: jsstring

section \<open>Note exporter\<close>

definition fullHtml :: "jsstring \<Rightarrow> jsstring \<Rightarrow> jsstring" where
  "fullHtml title htmlContent =
     nl @ str ''<!DOCTYPE html>'' @ nl
     @ str ''<html lang=\"en\">'' @ nl
     @ str ''<head>'' @ nl
     @ str ''  <meta charset=\"UTF-8\">'' @ nl
     @ str ''  <meta name=\"viewport\" content=\"width=device-width, initial-scale=1.0\">'' @ nl
     @ str ''  <title>'' @ title @ str ''</title>'' @ nl
     @ str ''  <link rel=\"stylesheet\" href=\"https://cdn.jsdelivr.net/npm/water.css@2/out/water.min.css\">'' @ nl
     @ str ''</head>'' @ nl
     @ str ''<body>'' @ nl
     @ str ''  '' @ htmlContent @ nl
     @ str ''</body>'' @ nl
     @ str ''</html>'' @ nl"

text \<open>\<open>None\<close> is the \<open>null\<close> that \<open>exportToHtml\<close> returns without an active file.\<close>

definition exportToHtml :: "host \<Rightarrow> jsstring option" where
  "exportToHtml h =
     (case getActiveFile h of
        Some activeFile \<Rightarrow> Some (fullHtml (basename activeFile) (marked h (read h activeFile)))
      | None \<Rightarrow> None)"

text \<open>
  \<open>file.extension.match(/png|jpg|jpeg|gif|bmp|svg/i)\<close>: the expression has no anchors, so
  it matches when one of the alternatives occurs anywhere in the extension. Under the
  \<open>i\<close> flag an ASCII letter of the pattern matches its two cases only.
\<close>

definition image_pattern :: "jsstring list" where
  "image_pattern = [str ''png'', str ''jpg'', str ''jpeg'', str ''gif'', str ''bmp'', str ''svg'']"

definition match_image_pattern :: "jsstring \<Rightarrow> bool" where
  "match_image_pattern ext =
     list_ex (\<lambda>alt. indexOf (toLowerCase ext) alt \<noteq> None) image_pattern"

text \<open>The loop over \<open>cache.embeds\<close> in \<open>getImageAttachmentsFromCurrentNote\<close>.\<close>

fun collect_embeds :: "host \<Rightarrow> tfile \<Rightarrow> embed list \<Rightarrow> tfile list" where
  "collect_embeds h currentNote [] = []"
| "collect_embeds h currentNote (e # es) =
     (if link e \<noteq> [] then
        (case getFirstLinkpathDest h (getLinkpath h (link e)) (path currentNote) of
           Some file \<Rightarrow>
             if match_image_pattern (extension file)
             then file # collect_embeds h currentNote es
             else collect_embeds h currentNote es
         | None \<Rightarrow> collect_embeds h currentNote es)
      else collect_embeds h currentNote es)"

definition getImageAttachmentsFromCurrentNote :: "host \<Rightarrow> world \<Rightarrow> tfile list \<times> world" where
  "getImageAttachmentsFromCurrentNote h w =
     (case getActiveFile h of
        None \<Rightarrow> ([], Notice (str ''No active note to export'') w)
      | Some currentNote \<Rightarrow>
          (case getFileCache h currentNote of
             None \<Rightarrow> ([], w)
           | Some cache \<Rightarrow>
               (case embeds cache of
                  None \<Rightarrow> ([], w)
                | Some es \<Rightarrow> (collect_embeds h currentNote es, w))))"

definition mimeTypes :: "(jsstring \<times> jsstring) list" where
  "mimeTypes =
     [(str ''png'', str ''image/png''),
      (str ''jpg'', str ''image/jpeg''),
      (str ''jpeg'', str ''image/jpeg''),
      (str ''gif'', str ''image/gif''),
      (str ''bmp'', str ''image/bmp''),
      (str ''svg'', str ''image/svg+xml'')]"

definition getMimeType :: "jsstring \<Rightarrow> jsvalue" where
  "getMimeType ext =
     (let v = get_property mimeTypes (toLowerCase ext)
      in if truthy v then the v else JsString (str ''application/octet-stream''))"

definition convertImageToBase64 :: "host \<Rightarrow> tfile \<Rightarrow> jsstring" where
  "convertImageToBase64 h file =
     (let base64String = arrayBufferToBase64 h (readBinary h file);
          mimeType = getMimeType (extension file)
      in str ''data:'' @ to_text mimeType @ str '';base64,'' @ base64String)"

text \<open>The loop over the images in \<open>openModal\<close>.\<close>

fun inline_images :: "host \<Rightarrow> tfile list \<Rightarrow> jsstring \<Rightarrow> jsstring" where
  "inline_images h [] html = html"
| "inline_images h (img # images) html =
     inline_images h images
       (replace html
          (str ''![['' @ name img @ str '']]'')
          (str ''<img src=\"'' @ convertImageToBase64 h img
             @ str ''\" alt=\"'' @ name img @ str ''\">''))"

section \<open>Fee estimator\<close>

text \<open>
  \<open>value.key\<close> on a value read from JSON: a \<open>TypeError\<close> on \<open>null\<close> and
  \<open>undefined\<close>, the member of an object, \<open>undefined\<close> (\<open>None\<close>) otherwise. The
  keys read below are not names of inherited members.
\<close>

definition TypeError :: "jsstring \<Rightarrow> jsstring \<Rightarrow> js_error" where
  "TypeError what key =
     JsError (str ''TypeError'')
       (str ''Cannot read properties of '' @ what @ str '' (reading '' @ [39] @ key @ [39] @ str '')'')"

fun get_member :: "json option \<Rightarrow> jsstring \<Rightarrow> js_error + json option" where
  "get_member None key = Inl (TypeError (str ''undefined'') key)"
| "get_member (Some JNull) key = Inl (TypeError (str ''null'') key)"
| "get_member (Some (JObj kvs)) key = Inr (map_of kvs key)"
| "get_member (Some v) key = Inr None"

definition price_url :: jsstring where
  "price_url = str ''https://api.coingecko.com/api/v3/simple/price?ids=arweave&vs_currencies=usd''"

definition getArPriceInUSD :: "services \<Rightarrow> world \<Rightarrow> (js_error + json option) \<times> world" where
  "getArPriceInUSD s w =
     (let w1 = send (FetchUrl price_url) w
      in case requestUrl s price_url of
           Inl e \<Rightarrow> (Inl e, w1)
         | Inr json \<Rightarrow>
             (case get_member (Some json) (str ''arweave'') of
                Inl e \<Rightarrow> (Inl e, w1)
              | Inr arweave \<Rightarrow> (get_member arweave (str ''usd''), w1)))"

text \<open>
  \<open>Number(value)\<close> for a value read from JSON. An array or an object is turned into its
  text first: the elements of an array joined by commas, \<open>null\<close> elements empty.
\<close>

fun join :: "jsstring list \<Rightarrow> jsstring" where
  "join [] = []"
| "join [x] = x"
| "join (x # y # r) = x @ str '','' @ join (y # r)"

fun json_text :: "json \<Rightarrow> jsstring" where
  "json_text JNull = str ''null''"
| "json_text (JBool b) = (if b then str ''true'' else str ''false'')"
| "json_text (JNum t) = number_to_string (StringToNumber t)"
| "json_text (JStr t) = t"
| "json_text (JArr vs) = join (map (\<lambda>v. case v of JNull \<Rightarrow> [] | _ \<Rightarrow> json_text v) vs)"
| "json_text (JObj kvs) = str ''[object Object]''"

fun Number :: "json option \<Rightarrow> double" where
  "Number None = NaN"
| "Number (Some JNull) = Num 0 0"
| "Number (Some (JBool b)) = (if b then Num 1 0 else Num 0 0)"
| "Number (Some (JNum t)) = StringToNumber t"
| "Number (Some (JStr t)) = StringToNumber t"
| "Number (Some v) = StringToNumber (json_text v)"

text \<open>
  \<open>Math.round(Number(usd) * Number(priceInAR) * 10000) / 10000\<close>, the products from
  left to right.
\<close>

definition txCost :: "json option \<Rightarrow> jsstring \<Rightarrow> double" where
  "txCost usd priceInAR =
     ddiv (Math_round (dmul (dmul (Number usd) (StringToNumber priceInAR)) (to_double 10000 1)))
          (to_double 10000 1)"

text \<open>The \<open>try\<close> block of \<open>getTransactionPrice\<close>.\<close>

definition getTransactionPrice_try :: "services \<Rightarrow> jsstring \<Rightarrow> world \<Rightarrow> (js_error + jsstring) \<times> world" where
  "getTransactionPrice_try s html w =
     (let w1 = send (GetPrice (length html)) w
      in case getPrice s (length html) of
           Inl e \<Rightarrow> (Inl e, w1)
         | Inr priceInWinston \<Rightarrow>
             (let priceInAR = winstonToAr s priceInWinston
              in case getArPriceInUSD s w1 of
                   (Inl e, w2) \<Rightarrow> (Inl e, w2)
                 | (Inr usd, w2) \<Rightarrow>
                     (Inr (str ''Transaction cost: ~'' @ priceInAR @ str '' AR (''
                           @ number_to_string (txCost usd priceInAR) @ str ''$)''), w2)))"

definition getTransactionPrice :: "services \<Rightarrow> jsstring \<Rightarrow> world \<Rightarrow> (js_error + jsstring) \<times> world" where
  "getTransactionPrice s html w =
     (case getTransactionPrice_try s html w of
        (Inl error, w') \<Rightarrow>
          (Inl error, Notice (str ''Error calculating transaction price: '' @ error_text error) w')
      | (Inr text, w') \<Rightarrow> (Inr text, w'))"

section \<open>Balance lookup\<close>

definition getBalanceByPrivateKey_try :: "services \<Rightarrow> settings \<Rightarrow> world \<Rightarrow> (js_error + jsstring) \<times> world" where
  "getBalanceByPrivateKey_try s cfg w =
     (case JSON_parse s (privateKey cfg) of
        Inl e \<Rightarrow> (Inl e, w)
      | Inr wallet \<Rightarrow>
          (case getAddress s wallet of
             Inl e \<Rightarrow> (Inl e, w)
           | Inr address \<Rightarrow>
               (let w1 = send (GetBalance address) w
                in case getBalance s address of
                     Inl e \<Rightarrow> (Inl e, w1)
                   | Inr balanceInWinston \<Rightarrow> (Inr (winstonToAr s balanceInWinston), w1))))"

definition getBalanceByPrivateKey :: "services \<Rightarrow> settings \<Rightarrow> world \<Rightarrow> (js_error + jsstring) \<times> world" where
  "getBalanceByPrivateKey s cfg w =
     (case getBalanceByPrivateKey_try s cfg w of
        (Inl error, w') \<Rightarrow> (Inl error, Notice (str ''Error getting balance: '' @ error_text error) w')
      | (Inr balanceInAR, w') \<Rightarrow> (Inr balanceInAR, w'))"

section \<open>Upload\<close>

definition addTag :: "jsstring \<Rightarrow> jsstring \<Rightarrow> transaction \<Rightarrow> transaction" where
  "addTag k v tx = tx\<lparr>tx_tags := tx_tags tx @ [(k, v)]\<rparr>"

text \<open>The \<open>try\<close> block of \<open>uploadToArweave\<close>; \<open>sign\<close> gives the transaction its id.\<close>

definition uploadToArweave_try :: "services \<Rightarrow> json \<Rightarrow> jsstring \<Rightarrow> world \<Rightarrow> (js_error + jsstring) \<times> world" where
  "uploadToArweave_try s wallet html w =
     (case createTransaction s html wallet of
        Inl e \<Rightarrow> (Inl e, w)
      | Inr created \<Rightarrow>
          (case sign s (addTag (str ''Content-Type'') (str ''text/html'') created) wallet of
             Inl e \<Rightarrow> (Inl e, w)
           | Inr tx \<Rightarrow>
               (let w1 = send (PostTx tx) w
                in case post s tx of
                     Inl e \<Rightarrow> (Inl e, w1)
                   | Inr resp \<Rightarrow>
                       if status resp = 200 \<or> status resp = 202
                       then (Inr (str ''https://arweave.net/'' @ tx_id tx), w1)
                       else (Inl (JsError (str ''Error'')
                                   (str ''Transaction failed with status '' @ show_int (status resp))),
                             w1))))"

text \<open>\<open>JSON.parse\<close> is called before the \<open>try\<close> block is entered.\<close>

definition uploadToArweave :: "services \<Rightarrow> settings \<Rightarrow> jsstring \<Rightarrow> world \<Rightarrow> (js_error + jsstring) \<times> world" where
  "uploadToArweave s cfg html w =
     (case JSON_parse s (privateKey cfg) of
        Inl e \<Rightarrow> (Inl e, w)
      | Inr wallet \<Rightarrow>
          (case uploadToArweave_try s wallet html w of
             (Inl error, w') \<Rightarrow>
               (Inl error, Notice (str ''Error uploading to Arweave: '' @ error_text error) w')
           | (Inr url, w') \<Rightarrow> (Inr url, w')))"

section \<open>The modal\<close>

definition openModal :: "host \<Rightarrow> services \<Rightarrow> world \<Rightarrow> (js_error + unit) \<times> world" where
  "openModal h s w =
     (case exportToHtml h of
        None \<Rightarrow> (Inr (), Notice (str ''No active note to export'') w)
      | Some html \<Rightarrow>
          if html \<noteq> [] then
            (case getImageAttachmentsFromCurrentNote h w of
               (images, w1) \<Rightarrow>
                 (let html' = inline_images h images html
                  in case getTransactionPrice s html' w1 of
                       (Inl e, w2) \<Rightarrow> (Inl e, w2)
                     | (Inr price, w2) \<Rightarrow>
                         (Inr (),
                          w2\<lparr>modals := modals w2 @
                                [\<lparr>priceInUSD = price, data = html', contentEl = [], sendButton = []\<rparr>]\<rparr>)))
          else (Inr (), Notice (str ''No active note to export'') w))"

definition onOpen :: "services \<Rightarrow> settings \<Rightarrow> modal \<Rightarrow> world \<Rightarrow> (js_error + unit) \<times> modal \<times> world" where
  "onOpen s cfg m w =
     (let m0 = m\<lparr>contentEl := []\<rparr>
      in case getBalanceByPrivateKey s cfg w of
           (Inl e, w1) \<Rightarrow> (Inl e, m0, w1)
         | (Inr balance, w1) \<Rightarrow>
             (Inr (),
              m0\<lparr>contentEl :=
                    [Paragraph (str ''Your wallet balance: '' @ balance @ str '' AR''),
                     Paragraph (str ''Transaction cost: '' @ priceInUSD m0),
                     SendButton],
                  sendButton := str ''Upload note to Arweave''\<rparr>,
              w1))"

text \<open>
  The click handler of the send button. When \<open>uploadToArweave\<close> throws, the handler
  stops at the \<open>await\<close> and the statements after it do not run.
\<close>

definition onclick :: "services \<Rightarrow> settings \<Rightarrow> modal \<Rightarrow> world \<Rightarrow> (js_error + unit) \<times> modal \<times> world" where
  "onclick s cfg m w =
     (let m1 = m\<lparr>sendButton := str ''Uploading...''\<rparr>
      in case uploadToArweave s cfg (data m1) w of
           (Inl e, w1) \<Rightarrow> (Inl e, m1, w1)
         | (Inr url, w1) \<Rightarrow>
             (if url \<noteq> [] then
                (Inr (),
                 m1\<lparr>contentEl := contentEl m1 @ [Paragraph (str ''Tx sent''), Anchor url url],
                    sendButton := str ''Upload note to Arweave''\<rparr>,
                 w1)
              else
                (Inr (),
                 m1\<lparr>sendButton := str ''Upload note to Arweave''\<rparr>,
                 Notice (str ''Error sending transaction'') w1)))"

section \<open>Size of a payload in bytes\<close>

text \<open>
  The client library uploads a string payload in UTF-8. \<open>utf8_length\<close> is the number
  of bytes of that encoding: one byte for an ASCII code unit, two below \<open>0x800\<close>, four
  for a surrogate pair, three for every other code unit (a surrogate without its partner
  is encoded as the replacement character).
\<close>

definition unit_bytes :: "code_unit \<Rightarrow> nat" where
  "unit_bytes u = (if u < 0x80 then 1 else if u < 0x800 then 2 else 3)"

definition surrogate_pair :: "code_unit \<Rightarrow> code_unit \<Rightarrow> bool" where
  "surrogate_pair u v \<longleftrightarrow> 0xD800 \<le> u \<and> u \<le> 0xDBFF \<and> 0xDC00 \<le> v \<and> v \<le> 0xDFFF"

fun utf8_length :: "jsstring \<Rightarrow> nat" where
  "utf8_length [] = 0"
| "utf8_length [u] = unit_bytes u"
| "utf8_length (u # v # t) =
     (if surrogate_pair u v then 4 + utf8_length t
      else unit_bytes u + utf8_length (v # t))"

section \<open>The fiat amount in the words of the specification\<close>

text \<open>
  The rate times the AR amount, multiplied by 10000, rounded to the nearest integer and
  divided by 10000, in exact arithmetic: the rate and the amount are fractions, and the
  result is the fraction of the rounded integer over 10000.
\<close>

definition spec_txCost :: "int \<times> nat \<Rightarrow> int \<times> nat \<Rightarrow> int \<times> nat" where
  "spec_txCost rate amount =
     (case (rate, amount) of
        ((rp, rq), (ap, aq)) \<Rightarrow>
          ((2 * (rp * ap * 10000) + int (rq * aq)) div (2 * int (rq * aq)), 10000))"

section \<open>Example inputs\<close>

text \<open>
  A note that embeds one attachment, a host that serves them, and a network whose
  gateway answers every submission with a given status. The stored key \<open>{}\<close> parses,
  every other one is rejected.
\<close>

definition example_file :: "string \<Rightarrow> string \<Rightarrow> tfile" where
  "example_file base ext =
     \<lparr>path = str base @ str ''.'' @ str ext, name = str base @ str ''.'' @ str ext,
      basename = str base, extension = str ext\<rparr>"

definition example_host :: "tfile option \<Rightarrow> tfile \<Rightarrow> host" where
  "example_host active attachment =
     \<lparr>getActiveFile = active,
      read = (\<lambda>f. str ''![['' @ name attachment @ str '']]''),
      readBinary = (\<lambda>f. [0x41, 0x42, 0x43]),
      getFileCache = (\<lambda>f. Some \<lparr>embeds = Some [\<lparr>link = name attachment\<rparr>]\<rparr>),
      getLinkpath = (\<lambda>l. l),
      getFirstLinkpathDest = (\<lambda>l source. if l = name attachment then Some attachment else None),
      arrayBufferToBase64 = (\<lambda>b. str ''QUJD''),
      marked = (\<lambda>md. str ''<p>'' @ md @ str ''</p>'' @ nl)\<rparr>"

definition example_services :: "int \<Rightarrow> services" where
  "example_services answer =
     \<lparr>JSON_parse = (\<lambda>text. if text = str ''{}'' then Inr (JObj [])
                      else Inl (JsError (str ''SyntaxError'') (str ''Unexpected end of JSON input''))),
      createTransaction = (\<lambda>payload wallet. Inr \<lparr>tx_data = payload, tx_tags = [], tx_id = []\<rparr>),
      sign = (\<lambda>tx wallet. Inr (tx\<lparr>tx_id := str ''abc''\<rparr>)),
      post = (\<lambda>tx. Inr \<lparr>status = answer\<rparr>),
      getPrice = (\<lambda>n. Inr (str ''1000'')),
      winstonToAr = (\<lambda>winston. winston),
      getAddress = (\<lambda>wallet. Inr (str ''addr'')),
      getBalance = (\<lambda>address. Inr (str ''5'')),
      requestUrl = (\<lambda>url. Inr (JObj [(str ''arweave'', JObj [(str ''usd'', JNum (str ''7.5''))])]))\<rparr>"

text \<open>
  The same network with another answer of the price feed (the value of \<open>arweave\<close> in
  the response) and another price, whose AR text is given.
\<close>

definition example_feed :: "json \<Rightarrow> string \<Rightarrow> services" where
  "example_feed quote ar =
     (example_services 200)
       \<lparr>getPrice := (\<lambda>n. Inr (str ar)),
        requestUrl := (\<lambda>url. Inr (JObj [(str ''arweave'', quote)]))\<rparr>"

definition empty_world :: world where
  "empty_world = \<lparr>notices = [], requests = [], modals = []\<rparr>"

section \<open>Basic facts\<close>

lemma str_Nil [simp]: "str [] = []"
  by (simp add: str_def)

lemma str_Cons [simp]: "str (c # cs) = of_char c # str cs"
  by (simp add: str_def)

lemma lower_unit_not_upper: "\<not> (65 \<le> lower_unit u \<and> lower_unit u \<le> 90)"
  by (simp add: lower_unit_def word_le_nat_alt unat_word_ariths)

lemma toLowerCase_no_upper: "list_all (\<lambda>u. \<not> (65 \<le> u \<and> u \<le> 90)) (toLowerCase s)"
  unfolding toLowerCase_def list_all_iff using lower_unit_not_upper by auto

lemma toLowerCase_neq:
  assumes "\<not> list_all (\<lambda>u. \<not> (65 \<le> u \<and> u \<le> 90)) k"
  shows "toLowerCase s \<noteq> k"
  using assms toLowerCase_no_upper [of s] by auto

text \<open>
  After \<open>toLowerCase\<close> a key can name only two of the inherited members: the others
  have a capital letter in their names.
\<close>

lemma inherited_lower:
  "toLowerCase ext \<in> set Object_prototype \<longleftrightarrow>
     toLowerCase ext = str ''constructor'' \<or> toLowerCase ext = str ''__proto__''"
proof -
  have "toLowerCase ext \<noteq> str ''hasOwnProperty''" by (rule toLowerCase_neq) simp
  moreover have "toLowerCase ext \<noteq> str ''isPrototypeOf''" by (rule toLowerCase_neq) simp
  moreover have "toLowerCase ext \<noteq> str ''propertyIsEnumerable''" by (rule toLowerCase_neq) simp
  moreover have "toLowerCase ext \<noteq> str ''toLocaleString''" by (rule toLowerCase_neq) simp
  moreover have "toLowerCase ext \<noteq> str ''toString''" by (rule toLowerCase_neq) simp
  moreover have "toLowerCase ext \<noteq> str ''valueOf''" by (rule toLowerCase_neq) simp
  moreover have "toLowerCase ext \<noteq> str ''__defineGetter__''" by (rule toLowerCase_neq) simp
  moreover have "toLowerCase ext \<noteq> str ''__defineSetter__''" by (rule toLowerCase_neq) simp
  moreover have "toLowerCase ext \<noteq> str ''__lookupGetter__''" by (rule toLowerCase_neq) simp
  moreover have "toLowerCase ext \<noteq> str ''__lookupSetter__''" by (rule toLowerCase_neq) simp
  ultimately show ?thesis
    unfolding Object_prototype_def by (simp del: str_Cons)
qed

text \<open>
  An extension that passes the filter of \<open>getImageAttachmentsFromCurrentNote\<close> is none
  of the two, so \<open>convertImageToBase64\<close> never looks one of them up.
\<close>

lemma filtered_extension_not_inherited:
  assumes "match_image_pattern ext"
  shows "toLowerCase ext \<noteq> str ''constructor'' \<and> toLowerCase ext \<noteq> str ''__proto__''"
proof -
  have "\<not> list_ex (\<lambda>alt. indexOf (str ''constructor'') alt \<noteq> None) image_pattern"
    by (simp add: image_pattern_def)
  moreover have "\<not> list_ex (\<lambda>alt. indexOf (str ''__proto__'') alt \<noteq> None) image_pattern"
    by (simp add: image_pattern_def)
  ultimately show ?thesis
    using assms unfolding match_image_pattern_def by metis
qed

lemma requests_Notice [simp]: "requests (Notice t w) = requests w"
  by (simp add: Notice_def)

lemma requests_send [simp]: "requests (send r w) = requests w @ [r]"
  by (simp add: send_def)

lemma unit_bytes_pos: "1 \<le> unit_bytes u"
  by (simp add: unit_bytes_def)

lemma unit_bytes_non_ascii: "128 \<le> u \<Longrightarrow> 2 \<le> unit_bytes u"
  by (simp add: unit_bytes_def not_less [symmetric])

lemma length_le_utf8_length: "length s \<le> utf8_length s"
proof (induction s rule: utf8_length.induct)
  case 1
  show ?case by simp
next
  case (2 u)
  show ?case using unit_bytes_pos [of u] by simp
next
  case (3 u v t)
  show ?case
  proof (cases "surrogate_pair u v")
    case True
    with 3 show ?thesis by simp
  next
    case False
    with 3 unit_bytes_pos [of u] show ?thesis by simp
  qed
qed

lemma length_less_utf8_length:
  "\<exists>u\<in>set s. 128 \<le> u \<Longrightarrow> length s < utf8_length s"
proof (induction s rule: utf8_length.induct)
  case 1
  then show ?case by simp
next
  case (2 u)
  then show ?case using unit_bytes_non_ascii [of u] by simp
next
  case (3 u v t)
  show ?case
  proof (cases "surrogate_pair u v")
    case True
    then show ?thesis using length_le_utf8_length [of t] by simp
  next
    case False
    show ?thesis
    proof (cases "128 \<le> u")
      case True
      then show ?thesis
        using False unit_bytes_non_ascii [of u] length_le_utf8_length [of "v # t"] by simp
    next
      case nu: False
      then have "\<exists>x\<in>set (v # t). 128 \<le> x" using 3(3) by auto
      then have "length (v # t) < utf8_length (v # t)" using 3(2) False by blast
      then show ?thesis using False unit_bytes_pos [of u] by simp
    qed
  qed
qed

lemma utf8_length_ascii:
  "\<forall>u\<in>set s. u < 128 \<Longrightarrow> utf8_length s = length s"
proof (induction s rule: utf8_length.induct)
  case 1
  then show ?case by simp
next
  case (2 u)
  then show ?case by (simp add: unit_bytes_def)
next
  case (3 u v t)
  then have "\<not> surrogate_pair u v"
    by (auto simp: surrogate_pair_def word_le_nat_alt word_less_nat_alt)
  with 3 show ?case by (simp add: unit_bytes_def)
qed

lemma getArPriceInUSD_requests:
  "\<exists>rest. requests (snd (getArPriceInUSD s w)) = requests w @ rest"
  by (auto simp: getArPriceInUSD_def Let_def split: sum.splits)

lemma getTransactionPrice_try_requests:
  "\<exists>rest. requests (snd (getTransactionPrice_try s html w))
            = requests w @ GetPrice (length html) # rest"
proof (cases "getPrice s (length html)")
  case (Inl e)
  then show ?thesis by (simp add: getTransactionPrice_try_def Let_def)
next
  case (Inr p)
  obtain rest where r: "requests (snd (getArPriceInUSD s (send (GetPrice (length html)) w)))
      = requests (send (GetPrice (length html)) w) @ rest"
    using getArPriceInUSD_requests by blast
  show ?thesis
    using Inr r
    by (cases "getArPriceInUSD s (send (GetPrice (length html)) w)")
       (auto simp: getTransactionPrice_try_def Let_def split: sum.splits)
qed

lemma notices_Notice [simp]: "notices (Notice t w) = notices w @ [t]"
  by (simp add: Notice_def)

lemma notices_send [simp]: "notices (send r w) = notices w"
  by (simp add: send_def)

lemma modals_Notice [simp]: "modals (Notice t w) = modals w"
  by (simp add: Notice_def)

lemma fullHtml_nonempty: "fullHtml title body \<noteq> []"
  by (simp add: fullHtml_def nl_def)

subsection \<open>What \<open>replace\<close> does\<close>

lemma indexOf_occurs: "indexOf s pat = Some p \<Longrightarrow> take (length pat) (drop p s) = pat"
proof (induction s arbitrary: p)
  case Nil
  then show ?case by (simp split: if_splits)
next
  case (Cons c cs)
  show ?case
  proof (cases "take (length pat) (c # cs) = pat")
    case True
    with Cons.prems show ?thesis by simp
  next
    case False
    with Cons.prems obtain q where "indexOf cs pat = Some q" and "p = Suc q"
      by auto
    with Cons.IH show ?thesis by simp
  qed
qed

lemma GetSubstitution_no_dollar:
  "36 \<notin> set rep \<Longrightarrow> GetSubstitution matched before after rep = rep"
  by (induction matched before after rep rule: GetSubstitution.induct) auto

lemma replace_first:
  assumes "indexOf s pat = Some p" and "36 \<notin> set rep"
  shows "replace s pat rep = take p s @ rep @ drop (p + length pat) s"
  using assms by (simp add: replace_def Let_def GetSubstitution_no_dollar)

lemma replace_absent: "indexOf s pat = None \<Longrightarrow> replace s pat rep = s"
  by (simp add: replace_def)

subsection \<open>What the filter of the embeds accepts\<close>

lemma collect_embeds_set:
  "set (collect_embeds h currentNote es) =
     {file. \<exists>e\<in>set es. link e \<noteq> []
        \<and> getFirstLinkpathDest h (getLinkpath h (link e)) (path currentNote) = Some file
        \<and> match_image_pattern (extension file)}"
  by (induction es) (auto split: option.splits)

lemma indexOf_self: "indexOf s s = Some 0"
  by (cases s) simp_all

lemma listed_extension_matches:
  "toLowerCase ext \<in> set image_pattern \<Longrightarrow> match_image_pattern ext"
  unfolding match_image_pattern_def list_ex_iff using indexOf_self by force

subsection \<open>Thrown errors and notices of the upload\<close>

lemma uploadToArweave_parse_throws:
  "JSON_parse s (privateKey cfg) = Inl e \<Longrightarrow> uploadToArweave s cfg html w = (Inl e, w)"
  by (simp add: uploadToArweave_def)

lemma getBalanceByPrivateKey_parse_throws:
  "JSON_parse s (privateKey cfg) = Inl e \<Longrightarrow>
   getBalanceByPrivateKey s cfg w
     = (Inl e, Notice (str ''Error getting balance: '' @ error_text e) w)"
  by (simp add: getBalanceByPrivateKey_def getBalanceByPrivateKey_try_def del: str_Cons)

lemma onclick_upload_throws:
  "fst (uploadToArweave s cfg (data m) w) = Inl e \<Longrightarrow>
   fst (onclick s cfg m w) = Inl e
   \<and> fst (snd (onclick s cfg m w)) = m\<lparr>sendButton := str ''Uploading...''\<rparr>"
  by (cases "uploadToArweave s cfg (data m) w") (simp add: onclick_def Let_def del: str_Cons)

lemma uploadToArweave_try_notices:
  "notices (snd (uploadToArweave_try s wallet html w)) = notices w"
  by (simp add: uploadToArweave_try_def Let_def split: sum.splits)

lemma uploadToArweave_try_url:
  "uploadToArweave_try s wallet html w = (Inr url, w') \<Longrightarrow> url \<noteq> []"
  by (auto simp: uploadToArweave_try_def Let_def split: sum.splits if_splits)

lemma uploadToArweave_url:
  assumes "uploadToArweave s cfg html w = (Inr url, w')"
  shows "url \<noteq> []"
proof (cases "JSON_parse s (privateKey cfg)")
  case (Inl e)
  with assms show ?thesis by (simp add: uploadToArweave_def)
next
  case (Inr wallet)
  obtain r w1 where t: "uploadToArweave_try s wallet html w = (r, w1)"
    by (cases "uploadToArweave_try s wallet html w")
  with assms Inr have "r = Inr url"
    by (cases r) (simp_all add: uploadToArweave_def)
  with t show ?thesis using uploadToArweave_try_url by blast
qed

lemma uploadToArweave_notices:
  "notices (snd (uploadToArweave s cfg html w)) = notices w
   \<or> (\<exists>e. notices (snd (uploadToArweave s cfg html w))
            = notices w @ [str ''Error uploading to Arweave: '' @ error_text e])"
proof (cases "JSON_parse s (privateKey cfg)")
  case (Inl e)
  then show ?thesis by (simp add: uploadToArweave_def)
next
  case (Inr wallet)
  obtain r w1 where t: "uploadToArweave_try s wallet html w = (r, w1)"
    by (cases "uploadToArweave_try s wallet html w")
  have n: "notices w1 = notices w"
    using uploadToArweave_try_notices [of s wallet html w] t by simp
  show ?thesis
    using Inr t n by (cases r) (auto simp add: uploadToArweave_def simp del: str_Cons)
qed

subsection \<open>Evaluating the arithmetic\<close>

text \<open>
  The numbers of the examples below, computed step by step: the binade first, then the
  rounding, then the digits.
\<close>

lemmas to_double_eval =
  to_double_def scale_def round_half_even_def strip2.simps Let_def

lemmas binade_eval =
  binade_def floor_log_ratio_def scale_def log2_floor.simps Let_def

lemmas decade_eval =
  decade_def floor_log_ratio_def scale_def log10_floor.simps Let_def

lemmas parse_eval =
  StringToNumber_def trim_def is_space_def non_decimal_def signed_decimal_def
  unsigned_decimal_def exponent_part_def is_digit_def digit_value_def digits_value_def
  negate_def scale_def Let_def

lemma to_double_10000: "to_double 10000 1 = Num 625 4"
proof -
  have "binade 10000 1 = 13" by (simp add: binade_eval)
  then show ?thesis by (simp add: to_double_eval)
qed

lemma to_double_145: "to_double 145 100000 = Num 208967022709991 (- 57)"
proof -
  have "binade 145 100000 = - 10" by (simp add: binade_eval)
  then show ?thesis by (simp add: to_double_eval)
qed

lemma to_double_1: "to_double 1 1 = Num 1 0"
proof -
  have "binade 1 1 = 0" by (simp add: binade_eval)
  then show ?thesis by (simp add: to_double_eval)
qed

lemma number_145: "StringToNumber (str ''0.00145'') = Num 208967022709991 (- 57)"
  by (simp add: parse_eval to_double_145)

lemma number_1: "StringToNumber (str ''1'') = Num 1 0"
  using to_double_1 by (simp add: parse_eval)

lemma product_145: "dmul (dmul (Num 208967022709991 (- 57)) (Num 1 0)) (Num 625 4)
    = Num 8162774324609023 (- 49)"
proof -
  have r1: "ratio (208967022709991 * 1) (- 57 + 0) 1 0 = (208967022709991, 2 ^ 57)"
    by (simp add: ratio_def Let_def)
  have b1: "binade 208967022709991 (2 ^ 57) = - 10" by (simp add: binade_eval)
  have d1: "to_double 208967022709991 (2 ^ 57) = Num 208967022709991 (- 57)"
    using b1 by (simp add: to_double_eval)
  have r2: "ratio (208967022709991 * 625) (- 57 + 4) 1 0 = (208967022709991 * 625, 2 ^ 53)"
    by (simp add: ratio_def Let_def)
  have b2: "binade (208967022709991 * 625) (2 ^ 53) = 3" by (simp add: binade_eval)
  have d2: "to_double (208967022709991 * 625) (2 ^ 53) = Num 8162774324609023 (- 49)"
    using b2 by (simp add: to_double_eval)
  show ?thesis using r1 d1 r2 d2 by simp
qed

lemma round_145: "Math_round (Num 8162774324609023 (- 49)) = Num 7 1"
proof -
  have "binade 14 1 = 3" by (simp add: binade_eval)
  then have "to_double 14 1 = Num 7 1" by (simp add: to_double_eval)
  then show ?thesis by simp
qed

lemma quotient_14: "ddiv (Num 7 1) (Num 625 4) = Num 6456360425798343 (- 62)"
proof -
  have r: "ratio 7 1 625 4 = (7, 625 * 2 ^ 3)" by (simp add: ratio_def Let_def)
  have "binade 7 (625 * 2 ^ 3) = - 10" by (simp add: binade_eval)
  then have "to_double 7 (625 * 2 ^ 3) = Num 6456360425798343 (- 62)"
    by (simp add: to_double_eval)
  then show ?thesis using r by simp
qed

lemma text_14: "number_to_string (Num 6456360425798343 (- 62)) = str ''0.0014''"
proof -
  let ?m = "6456360425798343 :: nat"
  have r: "ratio (int ?m) (- 62) 1 0 = (int ?m, 2 ^ 62)" by (simp add: ratio_def Let_def)
  have d: "decade ?m (2 ^ 62) = - 3" by (simp add: decade_eval)
  have b1: "binade 1 1000 = - 10" by (simp add: binade_eval)
  have b2: "binade 2 1000 = - 9" by (simp add: binade_eval)
  have b14: "binade 14 10000 = - 10" by (simp add: binade_eval)
  have b15: "binade 15 10000 = - 10" by (simp add: binade_eval)
  have c1: "to_double 1 1000 \<noteq> Num (int ?m) (- 62)" using b1 by (simp add: to_double_eval)
  have c2: "to_double 2 1000 \<noteq> Num (int ?m) (- 62)" using b2 by (simp add: to_double_eval)
  have c14: "to_double 14 10000 = Num (int ?m) (- 62)" using b14 by (simp add: to_double_eval)
  have c15: "to_double 15 10000 \<noteq> Num (int ?m) (- 62)" using b15 by (simp add: to_double_eval)
  have p1: "pick ?m (- 62) 1 = None"
    using r d c1 c2 by (simp add: pick_def reads_back_def scale_def Let_def)
  have p2: "pick ?m (- 62) 2 = Some (14, - 2)"
    using r d c14 c15 by (simp add: pick_def reads_back_def scale_def Let_def)
  have s: "shortest ?m (- 62) 1 = (14, - 2)"
    using p1 p2 by (simp add: shortest.simps)
  have t: "strip10 14 = 14" by (simp add: strip10.simps)
  have z: "zeros 2 = [48, 48]" by (simp add: zeros_def numeral_2_eq_2)
  show ?thesis
    using s t z by (simp add: format_number_def digits.simps Let_def)
qed

lemma txCost_145: "number_to_string (txCost (Some (JNum (str ''0.00145''))) (str ''1'')) = str ''0.0014''"
  by (simp only: txCost_def Number.simps number_145 number_1 to_double_10000 product_145
      round_145 quotient_14 text_14)

lemma text_15: "number_to_string (to_double 15 10000) = str ''0.0015''"
proof -
  let ?m = "3458764513820541 :: nat"
  have b15: "binade 15 10000 = - 10" by (simp add: binade_eval)
  have c15: "to_double 15 10000 = Num (int ?m) (- 61)" using b15 by (simp add: to_double_eval)
  have r: "ratio (int ?m) (- 61) 1 0 = (int ?m, 2 ^ 61)" by (simp add: ratio_def Let_def)
  have d: "decade ?m (2 ^ 61) = - 3" by (simp add: decade_eval)
  have b1: "binade 1 1000 = - 10" by (simp add: binade_eval)
  have b2: "binade 2 1000 = - 9" by (simp add: binade_eval)
  have b16: "binade 16 10000 = - 10" by (simp add: binade_eval)
  have c1: "to_double 1 1000 \<noteq> Num (int ?m) (- 61)" using b1 by (simp add: to_double_eval)
  have c2: "to_double 2 1000 \<noteq> Num (int ?m) (- 61)" using b2 by (simp add: to_double_eval)
  have c16: "to_double 16 10000 \<noteq> Num (int ?m) (- 61)" using b16 by (simp add: to_double_eval)
  have p1: "pick ?m (- 61) 1 = None"
    using r d c1 c2 by (simp add: pick_def reads_back_def scale_def Let_def)
  have p2: "pick ?m (- 61) 2 = Some (15, - 2)"
    using r d c15 c16 by (simp add: pick_def reads_back_def scale_def Let_def)
  have s: "shortest ?m (- 61) 1 = (15, - 2)"
    using p1 p2 by (simp add: shortest.simps)
  have t: "strip10 15 = 15" by (simp add: strip10.simps)
  have z: "zeros 2 = [48, 48]" by (simp add: zeros_def numeral_2_eq_2)
  show ?thesis
    using s t z c15 by (simp add: format_number_def digits.simps Let_def)
qed

lemma txCost_2: "number_to_string (txCost (Some (JNum (str ''2''))) (str ''1'')) = str ''2''"
proof -
  have b2: "binade 2 1 = 1" by (simp add: binade_eval)
  have d2: "to_double 2 1 = Num 1 1" using b2 by (simp add: to_double_eval)
  have n2: "StringToNumber (str ''2'') = Num 1 1" using d2 by (simp add: parse_eval)
  have p1: "dmul (Num 1 1) (Num 1 0) = Num 1 1"
    using d2 by (simp add: ratio_def Let_def)
  have b3: "binade 20000 1 = 14" by (simp add: binade_eval)
  have d3: "to_double 20000 1 = Num 625 5" using b3 by (simp add: to_double_eval)
  have p2: "dmul (Num 1 1) (Num 625 4) = Num 625 5"
    using d3 by (simp add: ratio_def Let_def)
  have r: "Math_round (Num 625 5) = Num 625 5" by simp
  have b4: "binade 1250 625 = 1" by (simp add: binade_eval)
  have d4: "to_double 1250 625 = Num 1 1" using b4 by (simp add: to_double_eval)
  have q: "ddiv (Num 625 5) (Num 625 4) = Num 1 1"
    using d4 by (simp add: ratio_def Let_def)
  have dc: "decade 2 1 = 0" by (simp add: decade_eval)
  have pk: "pick 1 1 1 = Some (2, 1)"
    using dc d2 by (simp add: pick_def reads_back_def ratio_def scale_def Let_def)
  have sh: "shortest 1 1 1 = (2, 1)" using pk by (simp add: shortest.simps)
  have st: "strip10 2 = 2" by (simp add: strip10.simps)
  have t: "number_to_string (Num 1 1) = str ''2''"
    using sh st by (simp add: format_number_def zeros_def digits.simps Let_def)
  show ?thesis
    by (simp only: txCost_def Number.simps n2 number_1 to_double_10000 p1 p2 r q t)
qed

lemma getTransactionPrice_succeeds:
  assumes "getPrice s (length html) = Inr priceInWinston"
    and "fst (getArPriceInUSD s (send (GetPrice (length html)) w)) = Inr usd"
  shows "fst (getTransactionPrice s html w)
     = Inr (str ''Transaction cost: ~'' @ winstonToAr s priceInWinston @ str '' AR (''
            @ number_to_string (txCost usd (winstonToAr s priceInWinston)) @ str ''$)'')"
  using assms
  by (cases "getArPriceInUSD s (send (GetPrice (length html)) w)")
     (simp add: getTransactionPrice_def getTransactionPrice_try_def Let_def del: str_Cons)

lemma getTransactionPrice_throws:
  assumes "getTransactionPrice s html w = (Inl e, w')"
  shows "\<exists>w1. w' = Notice (str ''Error calculating transaction price: '' @ error_text e) w1"
proof -
  obtain r w1 where t: "getTransactionPrice_try s html w = (r, w1)"
    by (cases "getTransactionPrice_try s html w")
  with assms show ?thesis
    by (cases r) (auto simp add: getTransactionPrice_def simp del: str_Cons)
qed

section \<open>The extension-to-MIME lookup\<close>

text \<open>
  For every extension whose lower-case form is neither \<open>constructor\<close> nor
  \<open>__proto__\<close>, \<open>getMimeType\<close> returns the table entry of the lower-case form when it
  is png, jpg, jpeg, gif, bmp or svg, and \<open>application/octet-stream\<close> otherwise.
\<close>

lemma getMimeType_table:
  assumes "toLowerCase ext \<noteq> str ''constructor''" and "toLowerCase ext \<noteq> str ''__proto__''"
  shows "getMimeType ext = JsString
     (if toLowerCase ext = str ''png'' then str ''image/png''
      else if toLowerCase ext = str ''jpg'' then str ''image/jpeg''
      else if toLowerCase ext = str ''jpeg'' then str ''image/jpeg''
      else if toLowerCase ext = str ''gif'' then str ''image/gif''
      else if toLowerCase ext = str ''bmp'' then str ''image/bmp''
      else if toLowerCase ext = str ''svg'' then str ''image/svg+xml''
      else str ''application/octet-stream'')"
proof -
  have "toLowerCase ext \<notin> set Object_prototype"
    using assms by (simp only: inherited_lower) simp
  then show ?thesis
    by (simp add: getMimeType_def get_property_def mimeTypes_def Let_def)
qed

lemma getMimeType_table_examples:
  "toLowerCase (str ''PNG'') \<noteq> str ''constructor'' \<and> toLowerCase (str ''PNG'') \<noteq> str ''__proto__''
   \<and> getMimeType (str ''PNG'') = JsString (str ''image/png'')
   \<and> toLowerCase (str ''txt'') \<noteq> str ''constructor'' \<and> toLowerCase (str ''txt'') \<noteq> str ''__proto__''
   \<and> getMimeType (str ''txt'') = JsString (str ''application/octet-stream'')"
  using getMimeType_table [of "str ''PNG''"] getMimeType_table [of "str ''txt''"]
  by (simp add: toLowerCase_def lower_unit_def)


section \<open>Inlining the images\<close>

text \<open>
  C1 says that every occurrence of \<open>![[name]]\<close> in the exported HTML becomes an
  \<open><img>\<close> tag whose alt text is the file name. \<open>replace\<close> with a string pattern
  rewrites the first occurrence only, and it reads \<open>$$\<close> in the replacement text as
  one dollar sign. With one entry in the embed index and the embed syntax twice in the
  HTML (the second time inside a code block), the second occurrence stays; for the file
  \<open>a$$b.png\<close> the alt text is \<open>a$b.png\<close>.
\<close>

theorem inline_images_replaces_first_only:
  "inline_images (example_host (Some (example_file ''trip'' ''md'')) (example_file ''a'' ''png''))
     [example_file ''a'' ''png'']
     (str ''<p>![[a.png]]</p><pre><code>![[a.png]]</code></pre>'')
   = str ''<p><img src=\"data:image/png;base64,QUJD\" alt=\"a.png\"></p><pre><code>![[a.png]]</code></pre>''
   \<and> inline_images (example_host (Some (example_file ''trip'' ''md'')) (example_file ''a$$b'' ''png''))
     [example_file ''a$$b'' ''png'']
     (str ''<p>![[a$$b.png]]</p>'')
   = str ''<p><img src=\"data:image/png;base64,QUJD\" alt=\"a$b.png\"></p>''"
  by (simp add: replace_def convertImageToBase64_def getMimeType_def get_property_def
      mimeTypes_def toLowerCase_def lower_unit_def example_host_def example_file_def)

section \<open>Collecting the image attachments\<close>

text \<open>
  C5 says that a resolved file is collected exactly when its extension is one of png,
  jpg, jpeg, gif, bmp, svg. Each of the six is collected
  (\<open>listed_extension_matches\<close>), but the pattern has no anchors: the file
  \<open>anim.apng\<close> is collected as well, and its extension is none of the six.
\<close>

theorem apng_attachment_collected:
  "fst (getImageAttachmentsFromCurrentNote
          (example_host (Some (example_file ''trip'' ''md'')) (example_file ''anim'' ''apng'')) w)
     = [example_file ''anim'' ''apng'']
   \<and> toLowerCase (extension (example_file ''anim'' ''apng'')) \<notin> set image_pattern"
  by (simp add: getImageAttachmentsFromCurrentNote_def match_image_pattern_def image_pattern_def
      toLowerCase_def lower_unit_def example_host_def example_file_def)

section \<open>Export without an active note\<close>

text \<open>
  C7. Without an active note \<open>exportToHtml\<close> returns \<open>null\<close>, and \<open>openModal\<close>
  returns normally after showing the notice \<open>No active note to export\<close>, with no modal
  opened. With an active note \<open>exportToHtml\<close> returns the skeleton around the rendered
  note, which is not the empty string.
\<close>

theorem export_without_active_note:
  "(getActiveFile h = None \<longrightarrow>
      exportToHtml h = None
      \<and> openModal h s w = (Inr (), Notice (str ''No active note to export'') w)
      \<and> notices (snd (openModal h s w)) = notices w @ [str ''No active note to export'']
      \<and> modals (snd (openModal h s w)) = modals w)
   \<and> (\<forall>activeFile. getActiveFile h = Some activeFile \<longrightarrow>
        exportToHtml h = Some (fullHtml (basename activeFile) (marked h (read h activeFile)))
        \<and> fullHtml (basename activeFile) (marked h (read h activeFile)) \<noteq> [])"
proof (intro conjI impI allI)
  assume none: "getActiveFile h = None"
  then show absent: "exportToHtml h = None"
    by (simp add: exportToHtml_def)
  then show shown: "openModal h s w = (Inr (), Notice (str ''No active note to export'') w)"
    by (simp add: openModal_def del: str_Cons)
  then show "notices (snd (openModal h s w)) = notices w @ [str ''No active note to export'']"
    and "modals (snd (openModal h s w)) = modals w"
    by (simp_all del: str_Cons)
next
  fix activeFile
  assume "getActiveFile h = Some activeFile"
  then show "exportToHtml h = Some (fullHtml (basename activeFile) (marked h (read h activeFile)))"
    by (simp add: exportToHtml_def)
next
  fix activeFile
  show "fullHtml (basename activeFile) (marked h (read h activeFile)) \<noteq> []"
    by (rule fullHtml_nonempty)
qed

theorem export_without_active_note_witness:
  "getActiveFile (example_host None (example_file ''a'' ''png'')) = None
   \<and> exportToHtml (example_host None (example_file ''a'' ''png'')) = None
   \<and> openModal (example_host None (example_file ''a'' ''png'')) (example_services 200) empty_world
       = (Inr (), \<lparr>notices = [str ''No active note to export''], requests = [], modals = []\<rparr>)
   \<and> getActiveFile (example_host (Some (example_file ''trip'' ''md'')) (example_file ''a'' ''png''))
       = Some (example_file ''trip'' ''md'')
   \<and> exportToHtml (example_host (Some (example_file ''trip'' ''md'')) (example_file ''a'' ''png''))
       = Some (fullHtml (str ''trip'') (str ''<p>![[a.png]]</p>'' @ nl))"
  using export_without_active_note
          [of "example_host None (example_file ''a'' ''png'')" "example_services 200" empty_world]
        export_without_active_note
          [of "example_host (Some (example_file ''trip'' ''md'')) (example_file ''a'' ''png'')"
              "example_services 200" empty_world]
  by (simp add: example_host_def example_file_def empty_world_def Notice_def)

section \<open>The text of the fee\<close>

text \<open>
  C6, as the code has it. Whenever \<open>getTransactionPrice\<close> returns, the price query and
  the price feed have both answered, and the text is \<open>Transaction cost: ~\<close>, the AR
  amount, \<open> AR (\<close>, the fiat amount and \<open>$)\<close>. The fiat amount is the text of the
  double that the code computes: the rate and the AR amount read as doubles, their
  product rounded to a double, that times 10000 rounded to a double, \<open>Math.round\<close> of
  it, and the quotient by 10000 rounded to a double.
\<close>

theorem getTransactionPrice_form:
  assumes "getTransactionPrice s html w = (Inr text, w')"
  shows "\<exists>priceInWinston usd.
      getPrice s (length html) = Inr priceInWinston
      \<and> fst (getArPriceInUSD s (send (GetPrice (length html)) w)) = Inr usd
      \<and> text = str ''Transaction cost: ~'' @ winstonToAr s priceInWinston @ str '' AR (''
           @ number_to_string
               (ddiv (Math_round
                        (dmul (dmul (Number usd) (StringToNumber (winstonToAr s priceInWinston)))
                              (to_double 10000 1)))
                     (to_double 10000 1))
           @ str ''$)''"
proof (cases "getPrice s (length html)")
  case (Inl e)
  with assms show ?thesis
    by (simp add: getTransactionPrice_def getTransactionPrice_try_def Let_def)
next
  case (Inr priceInWinston)
  obtain r w2 where feed: "getArPriceInUSD s (send (GetPrice (length html)) w) = (r, w2)"
    by (cases "getArPriceInUSD s (send (GetPrice (length html)) w)")
  show ?thesis
  proof (cases r)
    case (Inl e)
    with assms Inr feed show ?thesis
      by (simp add: getTransactionPrice_def getTransactionPrice_try_def Let_def)
  next
    case usd: (Inr usd)
    with assms Inr feed have "text = str ''Transaction cost: ~'' @ winstonToAr s priceInWinston
        @ str '' AR ('' @ number_to_string (txCost usd (winstonToAr s priceInWinston)) @ str ''$)''"
      by (simp add: getTransactionPrice_def getTransactionPrice_try_def Let_def del: str_Cons)
    with Inr feed usd show ?thesis
      by (simp add: txCost_def del: str_Cons)
  qed
qed

theorem getTransactionPrice_form_witness:
  "getTransactionPrice (example_feed (JObj [(str ''usd'', JNum (str ''2''))]) ''1'')
       (str ''<p>hi</p>'') empty_world
     = (Inr (str ''Transaction cost: ~1 AR (2$)''),
        send (FetchUrl price_url) (send (GetPrice (length (str ''<p>hi</p>''))) empty_world))
   \<and> (\<exists>priceInWinston usd.
        str ''Transaction cost: ~1 AR (2$)''
          = str ''Transaction cost: ~'' @ priceInWinston @ str '' AR (''
            @ number_to_string
                (ddiv (Math_round (dmul (dmul (Number usd) (StringToNumber priceInWinston))
                                        (to_double 10000 1)))
                      (to_double 10000 1))
            @ str ''$)'')"
proof -
  let ?s = "example_feed (JObj [(str ''usd'', JNum (str ''2''))]) ''1''"
  have w: "winstonToAr ?s = (\<lambda>t. t)"
    by (simp add: example_feed_def example_services_def)
  have e: "getTransactionPrice ?s (str ''<p>hi</p>'') empty_world
     = (Inr (str ''Transaction cost: ~1 AR (2$)''),
        send (FetchUrl price_url) (send (GetPrice (length (str ''<p>hi</p>''))) empty_world))"
    using txCost_2
    by (simp add: getTransactionPrice_def getTransactionPrice_try_def getArPriceInUSD_def
        example_feed_def example_services_def Let_def)
  from getTransactionPrice_form [OF e] w e show ?thesis by auto
qed

text \<open>
  In exact arithmetic the amount of C6 for the rate 0.00145 and 1 AR is 0.0015 (14.5
  rounds to 15). The code prints 0.0014: the double of 0.00145 times 10000 is the double
  just below 14.5, which \<open>Math.round\<close> takes to 14.
\<close>

theorem getTransactionPrice_rounds_in_binary:
  "fst (getTransactionPrice (example_feed (JObj [(str ''usd'', JNum (str ''0.00145''))]) ''1'')
         (str ''<p>hi</p>'') empty_world)
     = Inr (str ''Transaction cost: ~1 AR (0.0014$)'')
   \<and> spec_txCost (145, 100000) (1, 1) = (15, 10000)
   \<and> number_to_string (to_double 15 10000) = str ''0.0015''"
proof -
  let ?s = "example_feed (JObj [(str ''usd'', JNum (str ''0.00145''))]) ''1''"
  have a: "getPrice ?s (length (str ''<p>hi</p>'')) = Inr (str ''1'')"
    by (simp add: example_feed_def)
  have b: "fst (getArPriceInUSD ?s (send (GetPrice (length (str ''<p>hi</p>''))) empty_world))
      = Inr (Some (JNum (str ''0.00145'')))"
    by (simp add: getArPriceInUSD_def example_feed_def Let_def)
  have w: "winstonToAr ?s (str ''1'') = str ''1''"
    by (simp add: example_feed_def example_services_def)
  have "fst (getTransactionPrice ?s (str ''<p>hi</p>'') empty_world)
     = Inr (str ''Transaction cost: ~'' @ str ''1'' @ str '' AR (''
            @ number_to_string (txCost (Some (JNum (str ''0.00145''))) (str ''1'')) @ str ''$)'')"
    using getTransactionPrice_succeeds [OF a b] by (simp only: w)
  then have "fst (getTransactionPrice ?s (str ''<p>hi</p>'') empty_world)
     = Inr (str ''Transaction cost: ~1 AR (0.0014$)'')"
    using txCost_145 by simp
  moreover have "spec_txCost (145, 100000) (1, 1) = (15, 10000)"
    by (simp add: spec_txCost_def)
  ultimately show ?thesis using text_15 by simp
qed

text \<open>When the feed has no rate, the amount is not a number.\<close>

lemma getTransactionPrice_missing_rate:
  "fst (getTransactionPrice (example_feed (JObj []) ''1'') (str ''<p>hi</p>'') empty_world)
     = Inr (str ''Transaction cost: ~1 AR (NaN$)'')"
  by (simp add: getTransactionPrice_def getTransactionPrice_try_def getArPriceInUSD_def
      example_feed_def example_services_def txCost_def Let_def)

section \<open>The priced length\<close>

text \<open>
  C9. The first request of \<open>getTransactionPrice\<close> asks for the price of
  \<open>data.length\<close> bytes, the number of UTF-16 code units of the payload. That number is
  never larger than the number of bytes uploaded, it is smaller as soon as the payload
  has a code unit outside ASCII, and the two are equal for an ASCII payload.
\<close>

theorem getTransactionPrice_sends_length:
  "take (Suc (length (requests w))) (requests (snd (getTransactionPrice s html w)))
     = requests w @ [GetPrice (length html)]
   \<and> length html \<le> utf8_length html
   \<and> ((\<exists>u\<in>set html. 128 \<le> u) \<longrightarrow> length html < utf8_length html)
   \<and> ((\<forall>u\<in>set html. u < 128) \<longrightarrow> utf8_length html = length html)"
proof -
  obtain rest where r: "requests (snd (getTransactionPrice_try s html w))
      = requests w @ GetPrice (length html) # rest"
    using getTransactionPrice_try_requests by blast
  have "requests (snd (getTransactionPrice s html w))
      = requests (snd (getTransactionPrice_try s html w))"
    by (cases "getTransactionPrice_try s html w")
       (auto simp: getTransactionPrice_def split: sum.splits)
  with r have "take (Suc (length (requests w))) (requests (snd (getTransactionPrice s html w)))
     = requests w @ [GetPrice (length html)]" by simp
  then show ?thesis
    using length_le_utf8_length length_less_utf8_length utf8_length_ascii by blast
qed

theorem getTransactionPrice_sends_length_witness:
  "(\<exists>u\<in>set [0xE9 :: code_unit]. 128 \<le> u)
   \<and> length [0xE9 :: code_unit] < utf8_length [0xE9]
   \<and> take (Suc 0) (requests (snd (getTransactionPrice (example_services 200) [0xE9] empty_world)))
       = [GetPrice 1]
   \<and> list_all (\<lambda>u. u < 128) (str ''ab'')
   \<and> utf8_length (str ''ab'') = length (str ''ab'')"
  using getTransactionPrice_sends_length [of empty_world "example_services 200" "[0xE9]"]
    getTransactionPrice_sends_length [of empty_world "example_services 200" "str ''ab''"]
  by (simp add: empty_world_def)

section \<open>Upload\<close>

text \<open>
  C2 says that with a stored key that is not valid JSON each operation that parses it
  fails with the parse error, shows a notice and re-raises. The balance lookup does.
  \<open>uploadToArweave\<close> parses the key before its \<open>try\<close> block: with the empty key
  (the default setting) it throws the parse error and no notice is shown.
\<close>

theorem uploadToArweave_invalid_key_no_notice:
  "uploadToArweave (example_services 200) \<lparr>privateKey = []\<rparr> html w
     = (Inl (JsError (str ''SyntaxError'') (str ''Unexpected end of JSON input'')), w)
   \<and> getBalanceByPrivateKey (example_services 200) \<lparr>privateKey = []\<rparr> w
     = (Inl (JsError (str ''SyntaxError'') (str ''Unexpected end of JSON input'')),
        Notice (str ''Error getting balance: SyntaxError: Unexpected end of JSON input'') w)"
proof -
  have p: "JSON_parse (example_services 200) (privateKey \<lparr>privateKey = []\<rparr>)
      = Inl (JsError (str ''SyntaxError'') (str ''Unexpected end of JSON input''))"
    by (simp add: example_services_def)
  show ?thesis
    using uploadToArweave_parse_throws [OF p, of html w]
      getBalanceByPrivateKey_parse_throws [OF p, of w]
    by (simp add: error_text_def)
qed

text \<open>
  C4. Once the transaction has been created, signed and posted, \<open>uploadToArweave\<close>
  returns the URL \<open>https://arweave.net/<id>\<close> when the status of the response is 200
  or 202, and for every other status it throws an error whose message ends in the
  status; it returns a URL if and only if the status is 200 or 202.
\<close>

theorem uploadToArweave_status:
  assumes "JSON_parse s (privateKey cfg) = Inr wallet"
    and "createTransaction s html wallet = Inr created"
    and "sign s (addTag (str ''Content-Type'') (str ''text/html'') created) wallet = Inr tx"
    and "post s tx = Inr resp"
  shows "fst (uploadToArweave s cfg html w) =
           (if status resp = 200 \<or> status resp = 202
            then Inr (str ''https://arweave.net/'' @ tx_id tx)
            else Inl (JsError (str ''Error'')
                       (str ''Transaction failed with status '' @ show_int (status resp))))
         \<and> ((\<exists>url. fst (uploadToArweave s cfg html w) = Inr url)
              \<longleftrightarrow> status resp = 200 \<or> status resp = 202)"
  using assms
  by (simp add: uploadToArweave_def uploadToArweave_try_def Let_def del: str_Cons)

theorem uploadToArweave_status_witness:
  "fst (uploadToArweave (example_services 202) \<lparr>privateKey = str ''{}''\<rparr> (str ''<p>hi</p>'') empty_world)
     = Inr (str ''https://arweave.net/abc'')
   \<and> fst (uploadToArweave (example_services 500) \<lparr>privateKey = str ''{}''\<rparr> (str ''<p>hi</p>'') empty_world)
     = Inl (JsError (str ''Error'') (str ''Transaction failed with status 500''))"
proof -
  let ?tx = "\<lparr>tx_data = str ''<p>hi</p>'',
              tx_tags = [(str ''Content-Type'', str ''text/html'')], tx_id = str ''abc''\<rparr>"
  have a: "JSON_parse (example_services k) (privateKey \<lparr>privateKey = str ''{}''\<rparr>) = Inr (JObj [])" for k
    by (simp add: example_services_def)
  have b: "createTransaction (example_services k) (str ''<p>hi</p>'') (JObj [])
      = Inr \<lparr>tx_data = str ''<p>hi</p>'', tx_tags = [], tx_id = []\<rparr>" for k
    by (simp add: example_services_def)
  have c: "sign (example_services k) (addTag (str ''Content-Type'') (str ''text/html'')
        \<lparr>tx_data = str ''<p>hi</p>'', tx_tags = [], tx_id = []\<rparr>) (JObj []) = Inr ?tx" for k
    by (simp add: example_services_def addTag_def)
  have d: "post (example_services k) ?tx = Inr \<lparr>status = k\<rparr>" for k
    by (simp add: example_services_def)
  show ?thesis
    using uploadToArweave_status [OF a b c d, of 202 empty_world]
      uploadToArweave_status [OF a b c d, of 500 empty_world]
    by (simp add: show_int_def digits.simps)
qed

section \<open>The click handler\<close>

text \<open>
  C3 says that after a failed upload a notice has been shown and the label of the button
  is back to its idle text. The handler restores the label in the statement after the
  \<open>await\<close>, which a thrown error skips: when the gateway answers 500, the notice is
  shown, the handler ends with the error, and the label is still \<open>Uploading...\<close>.
\<close>

theorem onclick_failed_upload_keeps_label:
  "onclick (example_services 500) \<lparr>privateKey = str ''{}''\<rparr> m w
     = (Inl (JsError (str ''Error'') (str ''Transaction failed with status 500'')),
        m\<lparr>sendButton := str ''Uploading...''\<rparr>,
        Notice (str ''Error uploading to Arweave: Error: Transaction failed with status 500'')
          (send (PostTx \<lparr>tx_data = data m,
                         tx_tags = [(str ''Content-Type'', str ''text/html'')],
                         tx_id = str ''abc''\<rparr>) w))
   \<and> sendButton (fst (snd (onclick (example_services 500) \<lparr>privateKey = str ''{}''\<rparr> m w)))
       \<noteq> str ''Upload note to Arweave''"
  by (simp add: onclick_def uploadToArweave_def uploadToArweave_try_def example_services_def
      addTag_def Let_def error_text_def show_int_def digits.simps)

text \<open>
  C10. Whenever \<open>uploadToArweave\<close> returns, the URL it returns is not the empty
  string and the handler takes the branch that shows the link; no run of the handler
  shows the notice \<open>Error sending transaction\<close>.
\<close>

theorem error_sending_branch_unreachable:
  "(\<forall>url w'. uploadToArweave s cfg (data m) w = (Inr url, w') \<longrightarrow>
      url \<noteq> [] \<and>
      onclick s cfg m w =
        (Inr (),
         m\<lparr>contentEl := contentEl m @ [Paragraph (str ''Tx sent''), Anchor url url],
            sendButton := str ''Upload note to Arweave''\<rparr>,
         w'))
   \<and> str ''Error sending transaction''
        \<notin> set (drop (length (notices w)) (notices (snd (snd (onclick s cfg m w)))))"
proof -
  have a: "url \<noteq> [] \<and> onclick s cfg m w =
        (Inr (),
         m\<lparr>contentEl := contentEl m @ [Paragraph (str ''Tx sent''), Anchor url url],
            sendButton := str ''Upload note to Arweave''\<rparr>,
         w')"
    if u: "uploadToArweave s cfg (data m) w = (Inr url, w')" for url w'
  proof -
    have "url \<noteq> []" using u by (rule uploadToArweave_url)
    then show ?thesis using u by (simp add: onclick_def Let_def del: str_Cons)
  qed
  obtain r w1 where u: "uploadToArweave s cfg (data m) w = (r, w1)"
    by (cases "uploadToArweave s cfg (data m) w")
  have n: "notices w1 = notices w
     \<or> (\<exists>e. notices w1 = notices w @ [str ''Error uploading to Arweave: '' @ error_text e])"
    using uploadToArweave_notices [of s cfg "data m" w] u by simp
  have b: "str ''Error sending transaction''
        \<notin> set (drop (length (notices w)) (notices (snd (snd (onclick s cfg m w)))))"
  proof (cases r)
    case (Inl e)
    then have "snd (snd (onclick s cfg m w)) = w1"
      using u by (simp add: onclick_def Let_def)
    then show ?thesis using n by auto
  next
    case (Inr url)
    then have "snd (snd (onclick s cfg m w)) = w1"
      using u a [of url w1] by simp
    then show ?thesis using n by auto
  qed
  from a b show ?thesis by blast
qed

theorem error_sending_branch_unreachable_witness:
  "uploadToArweave (example_services 200) \<lparr>privateKey = str ''{}''\<rparr> (str ''<p>hi</p>'') empty_world
     = (Inr (str ''https://arweave.net/abc''),
        send (PostTx \<lparr>tx_data = str ''<p>hi</p>'',
                      tx_tags = [(str ''Content-Type'', str ''text/html'')],
                      tx_id = str ''abc''\<rparr>) empty_world)
   \<and> sendButton (fst (snd (onclick (example_services 200) \<lparr>privateKey = str ''{}''\<rparr>
        \<lparr>priceInUSD = [], data = str ''<p>hi</p>'', contentEl = [], sendButton = []\<rparr> empty_world)))
       = str ''Upload note to Arweave''
   \<and> contentEl (fst (snd (onclick (example_services 200) \<lparr>privateKey = str ''{}''\<rparr>
        \<lparr>priceInUSD = [], data = str ''<p>hi</p>'', contentEl = [], sendButton = []\<rparr> empty_world)))
       = [Paragraph (str ''Tx sent''),
          Anchor (str ''https://arweave.net/abc'') (str ''https://arweave.net/abc'')]"
proof -
  let ?m = "\<lparr>priceInUSD = [], data = str ''<p>hi</p>'', contentEl = [], sendButton = []\<rparr>"
  let ?w = "send (PostTx \<lparr>tx_data = str ''<p>hi</p>'',
                      tx_tags = [(str ''Content-Type'', str ''text/html'')],
                      tx_id = str ''abc''\<rparr>) empty_world"
  have u: "uploadToArweave (example_services 200) \<lparr>privateKey = str ''{}''\<rparr> (data ?m) empty_world
     = (Inr (str ''https://arweave.net/abc''), ?w)"
    by (simp add: uploadToArweave_def uploadToArweave_try_def example_services_def addTag_def Let_def)
  from error_sending_branch_unreachable
         [of "example_services 200" "\<lparr>privateKey = str ''{}''\<rparr>" ?m empty_world]
  have "onclick (example_services 200) \<lparr>privateKey = str ''{}''\<rparr> ?m empty_world =
        (Inr (),
         ?m\<lparr>contentEl := contentEl ?m @ [Paragraph (str ''Tx sent''),
               Anchor (str ''https://arweave.net/abc'') (str ''https://arweave.net/abc'')],
            sendButton := str ''Upload note to Arweave''\<rparr>,
         ?w)"
    using u by blast
  then show ?thesis using u by simp
qed

end
